theory Spec2Isabelle
  imports Complex_Main "HOL-Library.Sublist"
begin

section \<open>Python values, exceptions and effects\<close>

text \<open>
  The repository is one Python script and two notebooks. Each of them stores three
  travel tips as text files, embeds them into a vector database, asks a public weather
  service for the current weather and hands both to a locally served language model.

  A value that travels through the code (a request parameter, a parsed JSON body, the
  dict returned by \<open>get_weather\<close>) is a \<open>pyval\<close>. A dict keeps its items in insertion
  order, as Python's does; its keys are distinct, and it is read with \<open>map_of\<close>. The code never computes with a
  float: it writes two float literals and passes floats on, so a float is represented
  by the rational number its literal denotes. A string is a list of bytes, a character
  outside ASCII being its UTF-8 bytes.
\<close>

datatype pyval =
    PNone
  | PBool bool
  | PInt int
  | PFloat rat
  | PStr string
  | PList "pyval list"
  | PDict "(string \<times> pyval) list"

text \<open>
  The exceptions that the modelled code can meet. \<open>External\<close> is an exception raised
  inside a library or by a service (a refused connection, a model that is not loaded);
  its text is chosen by the environment.
\<close>

datatype exn =
    FileExistsError
  | FileNotFoundError
  | NotADirectoryError
  | IsADirectoryError
  | JSONDecodeError
  | AttributeError
  | External string

text \<open>The objects of the orchestration library are handles built from their arguments.\<close>

record document =
  page_content :: string
  source :: string

datatype embeddings = OllamaEmbeddings string

datatype vectorstore = Chroma string embeddings

datatype retriever = Retriever vectorstore

datatype llm = Ollama string

datatype qa_chain = RetrievalQA llm retriever

text \<open>
  A response of the HTTP library: its status code, and what calling \<open>response.json()\<close>
  does (it returns the parsed body or raises).
\<close>

record response =
  status_code :: int
  json :: "exn + pyval"

text \<open>
  The calls that leave the process, in the order they are made. Each event records the
  arguments of the call. \<open>HttpGet\<close> is one call of \<open>requests.get\<close>; the requests that
  the library sends for it are counted by \<open>sent_requests\<close> below.
\<close>

datatype event =
    FromDocuments "document list" embeddings string
  | Persist vectorstore
  | OpenStore string embeddings
  | HttpGet string "(string \<times> pyval) list"
  | LLMInvoke llm string
  | QARun qa_chain string
  | Print string

text \<open>The file system: a path is absent, a directory, or a file with its text.\<close>

datatype node = Dir | File string

type_synonym filesystem = "string \<rightharpoonup> node"

text \<open>
  What the libraries and services answer. None of this code is part of the repository,
  so it is a parameter of every definition below. \<open>None\<close> means that a call whose
  result is only a handle returned normally.

  The code calls \<open>requests.get\<close> without \<open>allow_redirects\<close>, so the library follows
  redirects, as is its default for GET: \<open>redirects_impl\<close> lists the redirect responses
  that the service gave to one call (the status code and the location of each, as in
  \<open>response.history\<close>), and \<open>http_impl\<close> is the response or the exception that the call
  ends with.
\<close>

record env =
  listdir_impl :: "filesystem \<Rightarrow> string \<Rightarrow> exn + string list"
  load_impl :: "filesystem \<Rightarrow> string \<Rightarrow> exn + document list"
  split_impl :: "nat \<Rightarrow> nat \<Rightarrow> document list \<Rightarrow> exn + document list"
  from_documents_impl :: "document list \<Rightarrow> embeddings \<Rightarrow> string \<Rightarrow> exn option"
  persist_impl :: "vectorstore \<Rightarrow> exn option"
  open_store_impl :: "string \<Rightarrow> embeddings \<Rightarrow> exn option"
  http_impl :: "string \<Rightarrow> (string \<times> pyval) list \<Rightarrow> exn + response"
  redirects_impl :: "string \<Rightarrow> (string \<times> pyval) list \<Rightarrow> (int \<times> string) list"
  llm_invoke_impl :: "llm \<Rightarrow> string \<Rightarrow> exn + string"
  qa_run_impl :: "qa_chain \<Rightarrow> string \<Rightarrow> exn + string"
  format_impl :: "pyval \<Rightarrow> string"

text \<open>
  A piece of code takes the file system and returns its result (a value, or the
  exception that stopped it), the file system it leaves and the events it caused.
\<close>

type_synonym 'a prog = "filesystem \<Rightarrow> (exn + 'a) \<times> filesystem \<times> event list"

definition ret :: "'a \<Rightarrow> 'a prog" where
  "ret x = (\<lambda>s. (Inr x, s, []))"

text \<open>A computation without effect: its value, or the exception it raises.\<close>

definition lift :: "exn + 'a \<Rightarrow> 'a prog" where
  "lift r = (\<lambda>s. (r, s, []))"

definition andThen :: "'a prog \<Rightarrow> ('a \<Rightarrow> 'b prog) \<Rightarrow> 'b prog" where
  "andThen m f = (\<lambda>s.
     case m s of
       (Inl e, s', tr) \<Rightarrow> (Inl e, s', tr)
     | (Inr x, s', tr) \<Rightarrow> (case f x s' of (r, s'', tr') \<Rightarrow> (r, s'', tr @ tr')))"

definition result_of :: "(exn + 'a) \<times> filesystem \<times> event list \<Rightarrow> exn + 'a" where
  "result_of out = fst out"

definition files_of :: "(exn + 'a) \<times> filesystem \<times> event list \<Rightarrow> filesystem" where
  "files_of out = fst (snd out)"

definition events_of :: "(exn + 'a) \<times> filesystem \<times> event list \<Rightarrow> event list" where
  "events_of out = snd (snd out)"

text \<open>An external call that returns a value, and one that returns only a handle.\<close>

definition call :: "event \<Rightarrow> exn + 'a \<Rightarrow> 'a prog" where
  "call ev answer = (\<lambda>s. (answer, s, [ev]))"

definition call_handle :: "event \<Rightarrow> exn option \<Rightarrow> 'a \<Rightarrow> 'a prog" where
  "call_handle ev answer h =
     call ev (case answer of None \<Rightarrow> Inr h | Some e \<Rightarrow> Inl e)"

definition print :: "string \<Rightarrow> unit prog" where
  "print text = call (Print text) (Inr ())"

section \<open>The weather tool\<close>

text \<open>\<open>d.get(key, default)\<close>: a value that is not a dict has no such method.\<close>

definition py_get :: "pyval \<Rightarrow> string \<Rightarrow> pyval \<Rightarrow> exn + pyval" where
  "py_get v key dflt =
     (case v of
        PDict items \<Rightarrow> Inr (case map_of items key of None \<Rightarrow> dflt | Some x \<Rightarrow> x)
      | _ \<Rightarrow> Inl AttributeError)"

definition requests_get :: "env \<Rightarrow> string \<Rightarrow> (string \<times> pyval) list \<Rightarrow> response prog" where
  "requests_get E url params = call (HttpGet url params) (http_impl E url params)"

definition endpoint :: string where
  "endpoint = ''https://api.open-meteo.com/v1/forecast''"

definition weather_params :: "pyval \<Rightarrow> pyval \<Rightarrow> (string \<times> pyval) list" where
  "weather_params lat lon =
     [(''latitude'', lat),
      (''longitude'', lon),
      (''current'', PStr ''temperature_2m,wind_speed_10m''),
      (''temperature_unit'', PStr ''celsius''),
      (''windspeed_unit'', PStr ''kmh'')]"

text \<open>
  \<open>get_weather(city)\<close> of the script and of the first notebook. The argument is not
  used in the body.
\<close>

definition get_weather :: "env \<Rightarrow> pyval \<Rightarrow> pyval prog" where
  "get_weather E city =
     andThen (requests_get E endpoint
                (weather_params (PFloat 48.8566) (PFloat 2.3522)))
       (\<lambda>response.
          if status_code response \<noteq> 200
          then ret (PDict [(''error'', PStr ''Failed to fetch weather data.'')])
          else andThen (lift (json response))
                 (\<lambda>body. lift (py_get body ''current'' (PDict []))))"

text \<open>\<open>get_weather(lat, lon)\<close> of the second notebook.\<close>

definition get_weather2 :: "env \<Rightarrow> pyval \<Rightarrow> pyval \<Rightarrow> pyval prog" where
  "get_weather2 E lat lon =
     andThen (requests_get E endpoint (weather_params lat lon))
       (\<lambda>response.
          if status_code response \<noteq> 200
          then ret (PDict [(''error'', PStr ''API failed.'')])
          else andThen (lift (json response))
                 (\<lambda>body. lift (py_get body ''current'' (PDict []))))"

section \<open>Saving the tip documents\<close>

definition rag_docs :: "string list" where
  "rag_docs =
     [''In Paris, it's best to carry an umbrella in spring.'',
      ''Always check the local metro schedule to avoid delays.'',
      ''Wear comfortable walking shoes when visiting tourist spots in Paris.'']"

text \<open>\<open>str(i)\<close> for the index that \<open>enumerate\<close> counts.\<close>

fun str_nat :: "nat \<Rightarrow> string" where
  "str_nat n =
     (if n < 10 then [''0123456789'' ! n]
      else str_nat (n div 10) @ [''0123456789'' ! (n mod 10)])"

declare str_nat.simps [simp del]

text \<open>
  \<open>os.makedirs(path, exist_ok=True)\<close> for a path of one component: an existing
  directory is accepted, an existing file is not.
\<close>

definition os_makedirs :: "string \<Rightarrow> unit prog" where
  "os_makedirs path = (\<lambda>s.
     case s path of
       None \<Rightarrow> (Inr (), s(path \<mapsto> Dir), [])
     | Some Dir \<Rightarrow> (Inr (), s, [])
     | Some (File t) \<Rightarrow> (Inl FileExistsError, s, []))"

definition dirname :: "string \<Rightarrow> string" where
  "dirname path = rev (drop 1 (dropWhile (\<lambda>c. c \<noteq> CHR ''/'') (rev path)))"

text \<open>
  \<open>with open(path, "w") as f: f.write(text)\<close>. The file is created or truncated; its
  directory must exist and the path must not name a directory. A path without a slash
  lies in the working directory.
\<close>

definition write_text :: "string \<Rightarrow> string \<Rightarrow> unit prog" where
  "write_text path text = (\<lambda>s.
     case (if dirname path = [] then Some Dir else s (dirname path)) of
       None \<Rightarrow> (Inl FileNotFoundError, s, [])
     | Some (File t) \<Rightarrow> (Inl NotADirectoryError, s, [])
     | Some Dir \<Rightarrow>
         (case s path of
            Some Dir \<Rightarrow> (Inl IsADirectoryError, s, [])
          | _ \<Rightarrow> (Inr (), s(path \<mapsto> File text), [])))"

definition doc_path :: "nat \<Rightarrow> string" where
  "doc_path i = ''rag_docs/doc_'' @ str_nat i @ ''.txt''"

text \<open>The loop \<open>for i, text in enumerate(rag_docs)\<close>, from index \<open>i\<close> on.\<close>

fun write_docs :: "nat \<Rightarrow> string list \<Rightarrow> unit prog" where
  "write_docs i [] = ret ()"
| "write_docs i (text # rest) =
     andThen (write_text (doc_path i) text) (\<lambda>_. write_docs (Suc i) rest)"

definition save_documents :: "unit prog" where
  "save_documents =
     andThen (os_makedirs ''rag_docs'') (\<lambda>_. write_docs 0 rag_docs)"

section \<open>Loading, splitting and embedding\<close>

text \<open>The loop \<open>for file in os.listdir("rag_docs")\<close> that extends \<open>all_docs\<close>.\<close>

fun load_files :: "env \<Rightarrow> string list \<Rightarrow> document list \<Rightarrow> document list prog" where
  "load_files E [] all_docs = ret all_docs"
| "load_files E (file # rest) all_docs =
     andThen (\<lambda>s. (load_impl E s (''rag_docs/'' @ file), s, []))
       (\<lambda>docs. load_files E rest (all_docs @ docs))"

definition load_documents :: "env \<Rightarrow> document list prog" where
  "load_documents E =
     andThen (\<lambda>s. (listdir_impl E s ''rag_docs'', s, []))
       (\<lambda>files. load_files E files [])"

definition embed_and_persist :: "env \<Rightarrow> document list \<Rightarrow> embeddings prog" where
  "embed_and_persist E splits =
     (let embedding = OllamaEmbeddings ''llama3'' in
      andThen (call_handle (FromDocuments splits embedding ''./chroma_db'')
                 (from_documents_impl E splits embedding ''./chroma_db'')
                 (Chroma ''./chroma_db'' embedding))
        (\<lambda>vectordb.
           andThen (call_handle (Persist vectordb) (persist_impl E vectordb) ())
             (\<lambda>_. ret embedding)))"

text \<open>
  The whole of the preparation step, which the three files share: save the tips, load
  and split them, embed and persist. It returns the embedding object that the later
  steps use again. The line that installs the packages and the imports come before it
  and are not part of the model.
\<close>

definition prepare_rag :: "env \<Rightarrow> embeddings prog" where
  "prepare_rag E =
     andThen save_documents
       (\<lambda>_. andThen (load_documents E)
          (\<lambda>all_docs. andThen (lift (split_impl E 300 50 all_docs))
             (\<lambda>splits. embed_and_persist E splits)))"

section \<open>The agent of the script and of the first notebook\<close>

definition degree :: string where
  "degree = [CHR 0xC2, CHR 0xB0]"

text \<open>A string formats as itself; any other value as Python prints it.\<close>

definition format_value :: "env \<Rightarrow> pyval \<Rightarrow> string" where
  "format_value E v = (case v of PStr text \<Rightarrow> text | _ \<Rightarrow> format_impl E v)"

definition weather_text :: "env \<Rightarrow> pyval \<Rightarrow> exn + string" where
  "weather_text E weather =
     (case py_get weather ''temperature_2m'' (PStr ''?'') of
        Inl e \<Rightarrow> Inl e
      | Inr t \<Rightarrow>
          (case py_get weather ''wind_speed_10m'' (PStr ''?'') of
             Inl e \<Rightarrow> Inl e
           | Inr w \<Rightarrow>
               Inr (''The current temperature in Paris is '' @ format_value E t @ degree
                    @ ''C with wind speed '' @ format_value E w @ '' km/h.'')))"

definition query :: "string \<Rightarrow> string" where
  "query text =
     ''Given this weather: '' @ text @ '', what travel tips do you have for Paris?''"

definition banner :: string where
  "banner = [CHR 0xF0, CHR 0x9F, CHR 0xA4, CHR 0x96] @ '' AI Agent Response:'' @ [CHR 0x0A]"

definition run_agent :: "env \<Rightarrow> embeddings \<Rightarrow> unit prog" where
  "run_agent E embedding =
     (let llm = Ollama ''llama3'' in
      andThen (call_handle (OpenStore ''./chroma_db'' embedding)
                 (open_store_impl E ''./chroma_db'' embedding)
                 (Chroma ''./chroma_db'' embedding))
        (\<lambda>store.
           let qa = RetrievalQA llm (Retriever store) in
           andThen (get_weather E (PStr ''Paris''))
             (\<lambda>weather. andThen (lift (weather_text E weather))
                (\<lambda>text. andThen (call (QARun qa (query text)) (qa_run_impl E qa (query text)))
                   (\<lambda>final_response. andThen (print banner)
                      (\<lambda>_. print final_response))))))"

definition script :: "env \<Rightarrow> unit prog" where
  "script E = andThen (prepare_rag E) (\<lambda>embedding. run_agent E embedding)"

section \<open>The reasoning notebook\<close>

definition question :: string where
  "question =
     ''You are a travel assistant. A user asks: 'What should I know before going to Paris today?'.''
     @ [CHR 0x0A]
     @ ''You have access to background tips and a weather tool you may use if helpful.''
     @ [CHR 0x0A]
     @ ''If you decide to call the weather tool, determine the correct latitude and longitude for the city.''
     @ [CHR 0x0A]
     @ ''Answer step-by-step with reasoning.''"

definition reasoning_banner :: string where
  "reasoning_banner = [CHR 0xF0, CHR 0x9F, CHR 0xA4, CHR 0x94] @ '' LLM Initial Reasoning:''"

definition tool_banner :: string where
  "tool_banner =
     [CHR 0x0A, CHR 0xF0, CHR 0x9F, CHR 0x8C, CHR 0xA6, CHR 0xEF, CHR 0xB8, CHR 0x8F]
     @ '' Simulated Weather Tool Output:''"

definition final_banner :: string where
  "final_banner =
     [CHR 0x0A, CHR 0xF0, CHR 0x9F, CHR 0xA7, CHR 0xA0] @ '' Final Agent Response:''"

definition weather_text2 :: "env \<Rightarrow> pyval \<Rightarrow> exn + string" where
  "weather_text2 E weather =
     (case py_get weather ''temperature_2m'' (PStr ''?'') of
        Inl e \<Rightarrow> Inl e
      | Inr t \<Rightarrow>
          (case py_get weather ''wind_speed_10m'' (PStr ''?'') of
             Inl e \<Rightarrow> Inl e
           | Inr w \<Rightarrow>
               Inr (''Temperature: '' @ format_value E t @ degree @ ''C, Wind: ''
                    @ format_value E w @ '' km/h.'')))"

definition query2 :: "string \<Rightarrow> string" where
  "query2 text =
     ''The weather in Paris today is: '' @ text @ ''.'' @ [CHR 0x0A]
     @ ''Based on this and local travel tips, what should a traveler know?''"

text \<open>The cell that asks the model to reason; it returns the model's text.\<close>

definition reasoning_cell :: "env \<Rightarrow> llm \<Rightarrow> string prog" where
  "reasoning_cell E llm =
     andThen (call (LLMInvoke llm question) (llm_invoke_impl E llm question))
       (\<lambda>response. andThen (print reasoning_banner)
          (\<lambda>_. andThen (print response) (\<lambda>_. ret response)))"

text \<open>The cell that calls the weather tool; it returns \<open>weather_text\<close>.\<close>

definition tool_cell :: "env \<Rightarrow> string prog" where
  "tool_cell E =
     (let lat = PFloat 48.8566; lon = PFloat 2.3522 in
      andThen (get_weather2 E lat lon)
        (\<lambda>weather. andThen (lift (weather_text2 E weather))
           (\<lambda>text. andThen (print tool_banner)
              (\<lambda>_. andThen (print text) (\<lambda>_. ret text)))))"

definition final_cell :: "env \<Rightarrow> embeddings \<Rightarrow> llm \<Rightarrow> string \<Rightarrow> unit prog" where
  "final_cell E embedding llm text =
     andThen (call_handle (OpenStore ''./chroma_db'' embedding)
                (open_store_impl E ''./chroma_db'' embedding)
                (Chroma ''./chroma_db'' embedding))
       (\<lambda>store.
          let qa = RetrievalQA llm (Retriever store) in
          andThen (call (QARun qa (query2 text)) (qa_run_impl E qa (query2 text)))
            (\<lambda>final_answer. andThen (print final_banner)
               (\<lambda>_. print final_answer)))"

text \<open>The notebook's cells run from top to bottom; an exception stops the run.\<close>

definition reasoning_notebook :: "env \<Rightarrow> unit prog" where
  "reasoning_notebook E =
     andThen (prepare_rag E)
       (\<lambda>embedding.
          let llm = Ollama ''llama3'' in
          andThen (reasoning_cell E llm)
            (\<lambda>response. andThen (tool_cell E)
               (\<lambda>text. final_cell E embedding llm text)))"

section \<open>Reading a run\<close>

fun is_http_get :: "event \<Rightarrow> bool" where
  "is_http_get (HttpGet url params) = True"
| "is_http_get _ = False"


text \<open>
  The three services the script talks to. Printing the answer on the console is not a
  call to any of them.
\<close>

datatype stage = VectorDatabase | WeatherService | LanguageModel

fun stage_of :: "event \<Rightarrow> stage option" where
  "stage_of (FromDocuments splits embedding directory) = Some VectorDatabase"
| "stage_of (Persist vectordb) = Some VectorDatabase"
| "stage_of (OpenStore directory embedding) = Some VectorDatabase"
| "stage_of (HttpGet url params) = Some WeatherService"
| "stage_of (LLMInvoke llm prompt) = Some LanguageModel"
| "stage_of (QARun qa prompt) = Some LanguageModel"
| "stage_of (Print text) = None"

text \<open>The services in the order a run reaches them, each named once per visit.\<close>

definition stages :: "event list \<Rightarrow> stage list" where
  "stages tr = remdups_adj (List.map_filter stage_of tr)"

section \<open>Sample environments\<close>

text \<open>
  An environment in which every library call returns, the weather service answers 200
  with a body of the documented shape, and the model returns a fixed text.
\<close>

definition sample_body :: pyval where
  "sample_body =
     PDict [(''latitude'', PFloat 48.86),
            (''longitude'', PFloat 2.35),
            (''current'',
               PDict [(''time'', PStr ''2024-05-01T12:00''),
                      (''interval'', PInt 900),
                      (''temperature_2m'', PFloat 18.3),
                      (''wind_speed_10m'', PFloat 11.2)])]"

definition sample_env :: env where
  "sample_env =
     \<lparr> listdir_impl = (\<lambda>s path. Inr [''doc_0.txt'', ''doc_1.txt'', ''doc_2.txt'']),
       load_impl = (\<lambda>s path.
          case s path of
            Some (File text) \<Rightarrow> Inr [\<lparr> page_content = text, source = path \<rparr>]
          | _ \<Rightarrow> Inl (External ''cannot load'')),
       split_impl = (\<lambda>chunk_size chunk_overlap docs. Inr docs),
       from_documents_impl = (\<lambda>splits embedding directory. None),
       persist_impl = (\<lambda>vectordb. None),
       open_store_impl = (\<lambda>directory embedding. None),
       http_impl = (\<lambda>url params. Inr \<lparr> status_code = 200, json = Inr sample_body \<rparr>),
       redirects_impl = (\<lambda>url params. []),
       llm_invoke_impl = (\<lambda>llm prompt. Inr ''Step 1: look up Paris.''),
       qa_run_impl = (\<lambda>qa prompt. Inr ''Carry an umbrella.''),
       format_impl = (\<lambda>v.
          if v = PFloat 18.3 then ''18.3''
          else if v = PFloat 11.2 then ''11.2''
          else ''None'') \<rparr>"

text \<open>The same environment with another answer of the weather service.\<close>

definition with_http :: "(exn + response) \<Rightarrow> env" where
  "with_http answer = sample_env \<lparr> http_impl := (\<lambda>url params. answer) \<rparr>"


definition with_llm :: "(exn + string) \<Rightarrow> env" where
  "with_llm answer = sample_env \<lparr> llm_invoke_impl := (\<lambda>llm prompt. answer) \<rparr>"

section \<open>Reading the outcome of composed code\<close>

lemma result_of_simps:
  "result_of (ret x s) = Inr x"
  "result_of (lift r s) = r"
  "result_of (call ev answer s) = answer"
  "result_of (print text s) = Inr ()"
  "result_of (call_handle ev None h s) = Inr h"
  "result_of (call_handle ev (Some e) h s) = Inl e"
  by (simp_all add: result_of_def ret_def lift_def call_def print_def call_handle_def)

lemma events_of_simps:
  "events_of (ret x s) = []"
  "events_of (lift r s) = []"
  "events_of (call ev answer s) = [ev]"
  "events_of (print text s) = [Print text]"
  "events_of (call_handle ev a h s) = [ev]"
  by (simp_all add: events_of_def ret_def lift_def call_def print_def call_handle_def)

lemma files_of_simps:
  "files_of (ret x s) = s"
  "files_of (lift r s) = s"
  "files_of (call ev answer s) = s"
  "files_of (print text s) = s"
  "files_of (call_handle ev a h s) = s"
  by (simp_all add: files_of_def ret_def lift_def call_def print_def call_handle_def)

lemma result_of_andThen:
  "result_of (andThen m f s) =
     (case result_of (m s) of Inl e \<Rightarrow> Inl e | Inr x \<Rightarrow> result_of (f x (files_of (m s))))"
  by (simp add: andThen_def result_of_def files_of_def split: prod.splits sum.splits)

lemma events_of_andThen:
  "events_of (andThen m f s) =
     (case result_of (m s) of
        Inl e \<Rightarrow> events_of (m s)
      | Inr x \<Rightarrow> events_of (m s) @ events_of (f x (files_of (m s))))"
  by (simp add: andThen_def result_of_def files_of_def events_of_def split: prod.splits sum.splits)

lemma files_of_andThen:
  "files_of (andThen m f s) =
     (case result_of (m s) of
        Inl e \<Rightarrow> files_of (m s)
      | Inr x \<Rightarrow> files_of (f x (files_of (m s))))"
  by (simp add: andThen_def result_of_def files_of_def split: prod.splits sum.splits)

lemmas run_simps = result_of_simps events_of_simps files_of_simps
  result_of_andThen events_of_andThen files_of_andThen

lemma get_weather_events:
  "events_of (get_weather E city s) =
     [HttpGet endpoint (weather_params (PFloat 48.8566) (PFloat 2.3522))]"
  by (simp add: get_weather_def requests_get_def run_simps split: sum.splits)

lemma get_weather2_events:
  "events_of (get_weather2 E lat lon s) = [HttpGet endpoint (weather_params lat lon)]"
  by (simp add: get_weather2_def requests_get_def run_simps split: sum.splits)

lemma get_weather_result:
  "result_of (get_weather E city s) =
     (case http_impl E endpoint (weather_params (PFloat 48.8566) (PFloat 2.3522)) of
        Inl e \<Rightarrow> Inl e
      | Inr r \<Rightarrow>
          if status_code r \<noteq> 200
          then Inr (PDict [(''error'', PStr ''Failed to fetch weather data.'')])
          else (case json r of
                  Inl e \<Rightarrow> Inl e
                | Inr body \<Rightarrow> py_get body ''current'' (PDict [])))"
  by (simp add: get_weather_def requests_get_def run_simps split: sum.splits)

lemma get_weather2_result:
  "result_of (get_weather2 E lat lon s) =
     (case http_impl E endpoint (weather_params lat lon) of
        Inl e \<Rightarrow> Inl e
      | Inr r \<Rightarrow>
          if status_code r \<noteq> 200
          then Inr (PDict [(''error'', PStr ''API failed.'')])
          else (case json r of
                  Inl e \<Rightarrow> Inl e
                | Inr body \<Rightarrow> py_get body ''current'' (PDict [])))"
  by (simp add: get_weather2_def requests_get_def run_simps split: sum.splits)


section \<open>Properties of the weather tool\<close>

lemma sample_http [simp]:
  "http_impl sample_env url params = Inr \<lparr> status_code = 200, json = Inr sample_body \<rparr>"
  "http_impl (with_http answer) url params = answer"
  by (simp_all add: sample_env_def with_http_def)





text \<open>
  C3: every invocation issues one GET to the fixed endpoint
  \<open>https://api.open-meteo.com/v1/forecast\<close>, and the parameters of the request are, in
  this order, \<open>latitude\<close>, \<open>longitude\<close>, \<open>current\<close> with the value
  \<open>temperature_2m,wind_speed_10m\<close>, \<open>temperature_unit\<close> with the value \<open>celsius\<close> and
  \<open>windspeed_unit\<close> with the value \<open>kmh\<close>. On success (status 200 and a JSON object
  with a \<open>current\<close> entry) the result is the value of that entry.
\<close>

theorem get_weather_contract:
  "events_of (get_weather E city s) =
     [HttpGet ''https://api.open-meteo.com/v1/forecast''
        [(''latitude'', PFloat 48.8566), (''longitude'', PFloat 2.3522),
         (''current'', PStr ''temperature_2m,wind_speed_10m''),
         (''temperature_unit'', PStr ''celsius''),
         (''windspeed_unit'', PStr ''kmh'')]]
   \<and> events_of (get_weather2 E lat lon s) =
     [HttpGet ''https://api.open-meteo.com/v1/forecast''
        [(''latitude'', lat), (''longitude'', lon),
         (''current'', PStr ''temperature_2m,wind_speed_10m''),
         (''temperature_unit'', PStr ''celsius''),
         (''windspeed_unit'', PStr ''kmh'')]]
   \<and> (\<forall>r body cur.
         http_impl E endpoint (weather_params (PFloat 48.8566) (PFloat 2.3522)) = Inr r
         \<and> status_code r = 200 \<and> json r = Inr (PDict body)
         \<and> map_of body ''current'' = Some cur
         \<longrightarrow> result_of (get_weather E city s) = Inr cur)
   \<and> (\<forall>r body cur.
         http_impl E endpoint (weather_params lat lon) = Inr r
         \<and> status_code r = 200 \<and> json r = Inr (PDict body)
         \<and> map_of body ''current'' = Some cur
         \<longrightarrow> result_of (get_weather2 E lat lon s) = Inr cur)"
  by (simp add: get_weather_events get_weather2_events get_weather_result get_weather2_result
      endpoint_def weather_params_def py_get_def)

theorem get_weather_contract_witness:
  "result_of (get_weather sample_env (PStr ''Paris'') Map.empty) =
     Inr (PDict [(''time'', PStr ''2024-05-01T12:00''), (''interval'', PInt 900),
                 (''temperature_2m'', PFloat 18.3), (''wind_speed_10m'', PFloat 11.2)])
   \<and> result_of (get_weather2 sample_env (PFloat 40.7128) (PFloat (- 74.006)) Map.empty) =
     Inr (PDict [(''time'', PStr ''2024-05-01T12:00''), (''interval'', PInt 900),
                 (''temperature_2m'', PFloat 18.3), (''wind_speed_10m'', PFloat 11.2)])"
  using get_weather_contract [of sample_env "PStr ''Paris''" Map.empty
      "PFloat 40.7128" "PFloat (- 74.006)"]
  by (simp add: sample_body_def)


text \<open>
  C2, as amended: in the script and the first notebook the request carries latitude
  48.8566 and longitude 2.3522 for every value of the argument, so two calls with
  different arguments (and in different environments) issue identical requests. The
  function of the reasoning notebook is different: it sends the latitude and longitude
  it is given.
\<close>

theorem get_weather_coordinates:
  "events_of (get_weather E city s) =
     [HttpGet endpoint (weather_params (PFloat 48.8566) (PFloat 2.3522))]
   \<and> events_of (get_weather E city s) = events_of (get_weather E' city' s')
   \<and> events_of (get_weather2 E lat lon s) = [HttpGet endpoint (weather_params lat lon)]
   \<and> map_of (weather_params lat lon) ''latitude'' = Some lat
   \<and> map_of (weather_params lat lon) ''longitude'' = Some lon"
  by (simp add: get_weather_events get_weather2_events weather_params_def)

theorem get_weather2_coordinates_counterexample:
  "events_of (get_weather2 sample_env (PFloat 40.7128) (PFloat (- 74.006)) Map.empty) =
     [HttpGet endpoint (weather_params (PFloat 40.7128) (PFloat (- 74.006)))]
   \<and> events_of (get_weather2 sample_env (PFloat 40.7128) (PFloat (- 74.006)) Map.empty) \<noteq>
     events_of (get_weather2 sample_env (PFloat 48.8566) (PFloat 2.3522) Map.empty)
   \<and> map_of (weather_params (PFloat 40.7128) (PFloat (- 74.006))) ''latitude'' \<noteq>
     Some (PFloat 48.8566)"
  by (simp add: get_weather2_events weather_params_def)


text \<open>
  C1, as amended: for every response of the weather service, a status code other than
  200 makes \<open>get_weather\<close> return the error marker dict; a status code of 200 with a
  JSON object that has a \<open>current\<close> entry makes it return the value of that entry, which
  is the error marker only when the body carries that very dict under \<open>current\<close>; and a
  status code of 200 with a body that is not JSON makes it raise the decoding error.
\<close>

theorem get_weather_status_check:
  assumes "http_impl E endpoint (weather_params (PFloat 48.8566) (PFloat 2.3522)) = Inr r"
  shows "(status_code r \<noteq> 200 \<longrightarrow>
            result_of (get_weather E city s) =
              Inr (PDict [(''error'', PStr ''Failed to fetch weather data.'')]))
       \<and> (\<forall>body cur. status_code r = 200 \<and> json r = Inr (PDict body)
              \<and> map_of body ''current'' = Some cur
            \<longrightarrow> result_of (get_weather E city s) = Inr cur)
       \<and> (status_code r = 200
            \<and> result_of (get_weather E city s) =
                Inr (PDict [(''error'', PStr ''Failed to fetch weather data.'')])
            \<longrightarrow> (\<exists>body. json r = Inr (PDict body)
                  \<and> map_of body ''current'' =
                      Some (PDict [(''error'', PStr ''Failed to fetch weather data.'')])))
       \<and> (\<forall>e. status_code r = 200 \<and> json r = Inl e
            \<longrightarrow> result_of (get_weather E city s) = Inl e)"
  using assms
  by (auto simp add: get_weather_result py_get_def split: sum.splits pyval.splits option.splits)

theorem get_weather_status_check_witness:
  "result_of (get_weather (with_http (Inr \<lparr> status_code = 503, json = Inl JSONDecodeError \<rparr>))
               (PStr ''Paris'') Map.empty) =
     Inr (PDict [(''error'', PStr ''Failed to fetch weather data.'')])
   \<and> result_of (get_weather (with_http (Inr \<lparr> status_code = 200, json = Inr sample_body \<rparr>))
               (PStr ''Paris'') Map.empty) =
     Inr (PDict [(''time'', PStr ''2024-05-01T12:00''), (''interval'', PInt 900),
                 (''temperature_2m'', PFloat 18.3), (''wind_speed_10m'', PFloat 11.2)])"
  using get_weather_status_check
      [of "with_http (Inr \<lparr> status_code = 503, json = Inl JSONDecodeError \<rparr>)"
          "\<lparr> status_code = 503, json = Inl JSONDecodeError \<rparr>" "PStr ''Paris''" Map.empty]
    get_weather_status_check
      [of "with_http (Inr \<lparr> status_code = 200, json = Inr sample_body \<rparr>)"
          "\<lparr> status_code = 200, json = Inr sample_body \<rparr>" "PStr ''Paris''" Map.empty]
  by (simp add: sample_body_def)

theorem get_weather_status_check_counterexample:
  "status_code \<lparr> status_code = 200, json = Inl JSONDecodeError \<rparr> = 200
   \<and> result_of (get_weather (with_http (Inr \<lparr> status_code = 200, json = Inl JSONDecodeError \<rparr>))
        (PStr ''Paris'') Map.empty) = Inl JSONDecodeError
   \<and> result_of (get_weather
        (with_http (Inr \<lparr> status_code = 200,
           json = Inr (PDict [(''current'',
                    PDict [(''error'', PStr ''Failed to fetch weather data.'')])]) \<rparr>))
        (PStr ''Paris'') Map.empty) =
       Inr (PDict [(''error'', PStr ''Failed to fetch weather data.'')])"
  by (simp add: get_weather_result py_get_def)


text \<open>
  C9, as amended: for every 200 response whose JSON body is an object without a
  \<open>current\<close> key, \<open>get_weather\<close> (of all three files) returns the empty dict.
\<close>

theorem get_weather_missing_current:
  assumes "status_code r = 200" and "json r = Inr (PDict body)"
    and "map_of body ''current'' = None"
  shows "(http_impl E endpoint (weather_params (PFloat 48.8566) (PFloat 2.3522)) = Inr r
            \<longrightarrow> result_of (get_weather E city s) = Inr (PDict []))
       \<and> (http_impl E endpoint (weather_params lat lon) = Inr r
            \<longrightarrow> result_of (get_weather2 E lat lon s) = Inr (PDict []))"
  using assms by (simp add: get_weather_result get_weather2_result py_get_def)

theorem get_weather_missing_current_witness:
  "result_of (get_weather
      (with_http (Inr \<lparr> status_code = 200, json = Inr (PDict [(''latitude'', PFloat 48.86)]) \<rparr>))
      (PStr ''Paris'') Map.empty) = Inr (PDict [])
   \<and> result_of (get_weather2
      (with_http (Inr \<lparr> status_code = 200, json = Inr (PDict [(''latitude'', PFloat 48.86)]) \<rparr>))
      (PFloat 48.8566) (PFloat 2.3522) Map.empty) = Inr (PDict [])"
  using get_weather_missing_current
      [of "\<lparr> status_code = 200, json = Inr (PDict [(''latitude'', PFloat 48.86)]) \<rparr>"
          "[(''latitude'', PFloat 48.86)]"
          "with_http (Inr \<lparr> status_code = 200, json = Inr (PDict [(''latitude'', PFloat 48.86)]) \<rparr>)"
          "PStr ''Paris''" Map.empty "PFloat 48.8566" "PFloat 2.3522"]
  by simp

theorem get_weather_missing_current_counterexample:
  "result_of (get_weather (with_http (Inr \<lparr> status_code = 200, json = Inr (PList []) \<rparr>))
      (PStr ''Paris'') Map.empty) = Inl AttributeError
   \<and> result_of (get_weather2 (with_http (Inr \<lparr> status_code = 200, json = Inr (PList []) \<rparr>))
      (PFloat 48.8566) (PFloat 2.3522) Map.empty) = Inl AttributeError"
  by (simp add: get_weather_result get_weather2_result py_get_def)

section \<open>Properties of the document store\<close>

lemma str_nat_small:
  "str_nat 0 = ''0''" "str_nat (Suc 0) = ''1''" "str_nat (Suc (Suc 0)) = ''2''"
  by (simp_all add: str_nat.simps)

lemma doc_path_small:
  "doc_path 0 = ''rag_docs/doc_0.txt''"
  "doc_path (Suc 0) = ''rag_docs/doc_1.txt''"
  "doc_path (Suc (Suc 0)) = ''rag_docs/doc_2.txt''"
  by (simp_all add: doc_path_def str_nat_small)

lemma dirname_doc:
  "dirname ''rag_docs/doc_0.txt'' = ''rag_docs''"
  "dirname ''rag_docs/doc_1.txt'' = ''rag_docs''"
  "dirname ''rag_docs/doc_2.txt'' = ''rag_docs''"
  by (simp_all add: dirname_def)

lemma outcome_simps [simp]:
  "result_of (r, s, tr) = r"
  "files_of (r, s, tr) = s"
  "events_of (r, s, tr) = tr"
  by (simp_all add: result_of_def files_of_def events_of_def)

lemma result_of_call_handle:
  "result_of (call_handle ev answer h s) = (case answer of None \<Rightarrow> Inr h | Some e \<Rightarrow> Inl e)"
  by (simp add: call_handle_def call_def)

lemma str_nat_numeral: "str_nat 1 = ''1''" "str_nat 2 = ''2''"
  by (simp_all add: str_nat.simps)

text \<open>Writing into an existing directory.\<close>

lemma write_text_in_dir:
  assumes "dirname path = d" "d \<noteq> []" "s d = Some Dir"
  shows "write_text path text s =
           (if s path = Some Dir then (Inl IsADirectoryError, s, [])
            else (Inr (), s(path \<mapsto> File text), []))"
  using assms by (auto simp add: write_text_def split: option.splits node.splits)

lemma os_makedirs_cases:
  "os_makedirs path s =
     (if (\<exists>t. s path = Some (File t)) then (Inl FileExistsError, s, [])
      else (Inr (), s(path \<mapsto> Dir), []))"
  by (auto simp add: os_makedirs_def split: option.splits node.splits)

lemma save_documents_run:
  "save_documents s =
     (if (\<exists>t. s ''rag_docs'' = Some (File t)) then (Inl FileExistsError, s, [])
      else if s ''rag_docs/doc_0.txt'' = Some Dir
        then (Inl IsADirectoryError, s(''rag_docs'' \<mapsto> Dir), [])
      else if s ''rag_docs/doc_1.txt'' = Some Dir
        then (Inl IsADirectoryError,
              s(''rag_docs'' \<mapsto> Dir, ''rag_docs/doc_0.txt'' \<mapsto> File (rag_docs ! 0)), [])
      else if s ''rag_docs/doc_2.txt'' = Some Dir
        then (Inl IsADirectoryError,
              s(''rag_docs'' \<mapsto> Dir, ''rag_docs/doc_0.txt'' \<mapsto> File (rag_docs ! 0),
                ''rag_docs/doc_1.txt'' \<mapsto> File (rag_docs ! 1)), [])
      else (Inr (),
            s(''rag_docs'' \<mapsto> Dir, ''rag_docs/doc_0.txt'' \<mapsto> File (rag_docs ! 0),
              ''rag_docs/doc_1.txt'' \<mapsto> File (rag_docs ! 1),
              ''rag_docs/doc_2.txt'' \<mapsto> File (rag_docs ! 2)), []))"
  by (simp add: save_documents_def andThen_def os_makedirs_cases rag_docs_def doc_path_small
      write_text_in_dir [OF dirname_doc(1)] write_text_in_dir [OF dirname_doc(2)]
      write_text_in_dir [OF dirname_doc(3)] ret_def)

text \<open>
  C10: the document-writing step is idempotent. Running it twice in a row gives the
  same result, the same file system and the same (empty) list of events as running it
  once; when the first run raises, the second never starts.
\<close>

theorem save_documents_idempotent:
  "andThen save_documents (\<lambda>_. save_documents) s = save_documents s"
  apply (simp add: andThen_def [of save_documents])
  apply (simp add: save_documents_run)
  done


text \<open>
  C7: on a file system where \<open>rag_docs\<close> is not a regular file and none of the three
  document paths is a directory, the step returns normally, \<open>rag_docs\<close> is a directory,
  the file \<open>rag_docs/doc_i.txt\<close> holds the \<open>i\<close>-th of the three tips for every index
  \<open>i\<close> of the list, every other path is as it was before, and nothing is sent to any
  service.
\<close>

theorem save_documents_files:
  assumes "\<forall>t. s ''rag_docs'' \<noteq> Some (File t)"
    and "\<forall>i < length rag_docs. s (doc_path i) \<noteq> Some Dir"
  shows "result_of (save_documents s) = Inr ()
       \<and> events_of (save_documents s) = []
       \<and> length rag_docs = 3
       \<and> (\<forall>i < length rag_docs.
             files_of (save_documents s) (''rag_docs/doc_'' @ str_nat i @ ''.txt'') =
               Some (File (rag_docs ! i)))
       \<and> files_of (save_documents s) ''rag_docs'' = Some Dir
       \<and> (\<forall>path. path \<noteq> ''rag_docs''
             \<and> path \<notin> {''rag_docs/doc_0.txt'', ''rag_docs/doc_1.txt'', ''rag_docs/doc_2.txt''}
             \<longrightarrow> files_of (save_documents s) path = s path)"
proof -
  have len: "length rag_docs = 3"
    by (simp add: rag_docs_def)
  have three: "i < 3 \<longleftrightarrow> i = 0 \<or> i = Suc 0 \<or> i = 2" for i :: nat
    by auto
  from assms(2) have free:
    "s ''rag_docs/doc_0.txt'' \<noteq> Some Dir"
    "s ''rag_docs/doc_1.txt'' \<noteq> Some Dir"
    "s ''rag_docs/doc_2.txt'' \<noteq> Some Dir"
    by (simp_all add: len three doc_path_small numeral_2_eq_2)
  from assms(1) free have run:
    "save_documents s =
       (Inr (),
        s(''rag_docs'' \<mapsto> Dir, ''rag_docs/doc_0.txt'' \<mapsto> File (rag_docs ! 0),
          ''rag_docs/doc_1.txt'' \<mapsto> File (rag_docs ! 1),
          ''rag_docs/doc_2.txt'' \<mapsto> File (rag_docs ! 2)), [])"
    by (simp add: save_documents_run)
  show ?thesis
    unfolding run
    by (auto simp add: len three str_nat_small numeral_2_eq_2)
qed

theorem save_documents_files_witness:
  "result_of (save_documents Map.empty) = Inr ()
   \<and> files_of (save_documents Map.empty) ''rag_docs/doc_0.txt'' =
       Some (File ''In Paris, it's best to carry an umbrella in spring.'')
   \<and> files_of (save_documents Map.empty) ''rag_docs/doc_1.txt'' =
       Some (File ''Always check the local metro schedule to avoid delays.'')
   \<and> files_of (save_documents Map.empty) ''rag_docs/doc_2.txt'' =
       Some (File ''Wear comfortable walking shoes when visiting tourist spots in Paris.'')
   \<and> files_of (save_documents Map.empty) ''rag_docs'' = Some Dir
   \<and> files_of (save_documents Map.empty) ''rag_docs/doc_3.txt'' = None"
proof -
  have len: "length rag_docs = 3"
    by (simp add: rag_docs_def)
  have h1: "\<forall>t. (Map.empty :: filesystem) ''rag_docs'' \<noteq> Some (File t)"
    by simp
  have h2: "\<forall>i < length rag_docs. (Map.empty :: filesystem) (doc_path i) \<noteq> Some Dir"
    by simp
  note t = save_documents_files [OF h1 h2]
  from t have written:
    "files_of (save_documents Map.empty) (''rag_docs/doc_'' @ str_nat i @ ''.txt'') =
       Some (File (rag_docs ! i))" if "i < 3" for i
    using that by (simp add: len)
  from t have kept: "files_of (save_documents Map.empty) ''rag_docs/doc_3.txt'' = None"
    by simp
  from t written [of 0] written [of 1] written [of 2] kept show ?thesis
    by (simp add: str_nat_small str_nat_numeral rag_docs_def)
qed

lemma save_documents_events: "events_of (save_documents s) = []"
  by (simp add: save_documents_run)

lemma load_files_events: "events_of (load_files E files all_docs s) = []"
  by (induction files arbitrary: all_docs)
     (simp_all add: run_simps split: sum.splits)

lemma load_documents_events: "events_of (load_documents E s) = []"
  by (simp add: load_documents_def run_simps load_files_events split: sum.splits)

lemma embed_and_persist_events:
  "events_of (embed_and_persist E splits s) =
     (let embedding = OllamaEmbeddings ''llama3'' in
      case from_documents_impl E splits embedding ''./chroma_db'' of
        Some e \<Rightarrow> [FromDocuments splits embedding ''./chroma_db'']
      | None \<Rightarrow> [FromDocuments splits embedding ''./chroma_db'',
                 Persist (Chroma ''./chroma_db'' embedding)])"
  by (simp add: embed_and_persist_def Let_def run_simps split: sum.splits option.splits)

lemma embed_and_persist_result:
  "result_of (embed_and_persist E splits s) = Inr embedding \<Longrightarrow>
     embedding = OllamaEmbeddings ''llama3''
     \<and> events_of (embed_and_persist E splits s) =
         [FromDocuments splits embedding ''./chroma_db'',
          Persist (Chroma ''./chroma_db'' embedding)]"
  by (auto simp add: embed_and_persist_def Let_def run_simps result_of_call_handle
      split: sum.splits option.splits)

text \<open>The preparation step causes at most the two calls to the vector database.\<close>

lemma prepare_rag_events:
  "events_of (prepare_rag E s) = []
   \<or> (\<exists>splits. events_of (prepare_rag E s) =
         [FromDocuments splits (OllamaEmbeddings ''llama3'') ''./chroma_db''])
   \<or> (\<exists>splits. events_of (prepare_rag E s) =
         [FromDocuments splits (OllamaEmbeddings ''llama3'') ''./chroma_db'',
          Persist (Chroma ''./chroma_db'' (OllamaEmbeddings ''llama3''))])"
  by (auto simp add: prepare_rag_def run_simps save_documents_events load_documents_events
      embed_and_persist_events Let_def split: sum.splits option.splits)

lemma prepare_rag_result:
  "result_of (prepare_rag E s) = Inr embedding \<Longrightarrow>
     embedding = OllamaEmbeddings ''llama3''
     \<and> (\<exists>splits. events_of (prepare_rag E s) =
           [FromDocuments splits embedding ''./chroma_db'',
            Persist (Chroma ''./chroma_db'' embedding)])"
  by (auto simp add: prepare_rag_def run_simps save_documents_events load_documents_events
      dest: embed_and_persist_result split: sum.splits)

section \<open>Properties of the runs\<close>

lemma get_weather_files: "files_of (get_weather E city s) = s"
  by (simp add: get_weather_def requests_get_def run_simps split: sum.splits)

lemma get_weather2_files: "files_of (get_weather2 E lat lon s) = s"
  by (simp add: get_weather2_def requests_get_def run_simps split: sum.splits)

text \<open>What the agent step does, by the point at which it stops.\<close>

lemma run_agent_events:
  "events_of (run_agent E embedding s) =
     (let qa = RetrievalQA (Ollama ''llama3'') (Retriever (Chroma ''./chroma_db'' embedding));
          opened = OpenStore ''./chroma_db'' embedding;
          fetched = HttpGet endpoint (weather_params (PFloat 48.8566) (PFloat 2.3522))
      in case open_store_impl E ''./chroma_db'' embedding of
           Some e \<Rightarrow> [opened]
         | None \<Rightarrow>
             (case result_of (get_weather E (PStr ''Paris'') s) of
                Inl e \<Rightarrow> [opened, fetched]
              | Inr weather \<Rightarrow>
                  (case weather_text E weather of
                     Inl e \<Rightarrow> [opened, fetched]
                   | Inr text \<Rightarrow>
                       (case qa_run_impl E qa (query text) of
                          Inl e \<Rightarrow> [opened, fetched, QARun qa (query text)]
                        | Inr answer \<Rightarrow>
                            [opened, fetched, QARun qa (query text),
                             Print banner, Print answer]))))"
  by (auto simp add: run_agent_def Let_def run_simps result_of_call_handle get_weather_events
      get_weather_files split: sum.splits option.splits)

lemma run_agent_result:
  "result_of (run_agent E embedding s) =
     (let qa = RetrievalQA (Ollama ''llama3'') (Retriever (Chroma ''./chroma_db'' embedding))
      in case open_store_impl E ''./chroma_db'' embedding of
           Some e \<Rightarrow> Inl e
         | None \<Rightarrow>
             (case result_of (get_weather E (PStr ''Paris'') s) of
                Inl e \<Rightarrow> Inl e
              | Inr weather \<Rightarrow>
                  (case weather_text E weather of
                     Inl e \<Rightarrow> Inl e
                   | Inr text \<Rightarrow>
                       (case qa_run_impl E qa (query text) of
                          Inl e \<Rightarrow> Inl e
                        | Inr answer \<Rightarrow> Inr ()))))"
  by (auto simp add: run_agent_def Let_def run_simps result_of_call_handle get_weather_files
      split: sum.splits option.splits)

lemma stages_simps:
  "stages [] = []"
  "stages [FromDocuments a b c] = [VectorDatabase]"
  "stages [FromDocuments a b c, Persist d] = [VectorDatabase]"
  "stages (FromDocuments a b c # Persist d # OpenStore e f # tr) = stages (OpenStore e f # tr)"
  "stages [OpenStore e f] = [VectorDatabase]"
  "stages [OpenStore e f, HttpGet u p] = [VectorDatabase, WeatherService]"
  "stages [OpenStore e f, HttpGet u p, QARun q t] =
     [VectorDatabase, WeatherService, LanguageModel]"
  "stages [OpenStore e f, HttpGet u p, QARun q t, Print x, Print y] =
     [VectorDatabase, WeatherService, LanguageModel]"
  by (simp_all add: stages_def List.map_filter_simps)

text \<open>
  C5: the script reaches the vector database (embed and store, persist, reopen), then
  the weather service (the HTTP GET), then the language model (the question-answering
  run), each once and in this order. A run that returns normally makes exactly the
  seven calls listed and visits exactly these three stages; a run that an exception
  stops has visited a prefix of them, so that nothing happens out of order.
\<close>

theorem script_interactions:
  "prefix (stages (events_of (script E s))) [VectorDatabase, WeatherService, LanguageModel]
   \<and> (result_of (script E s) = Inr () \<longrightarrow>
        stages (events_of (script E s)) = [VectorDatabase, WeatherService, LanguageModel]
        \<and> (\<exists>splits text answer.
              events_of (script E s) =
                [FromDocuments splits (OllamaEmbeddings ''llama3'') ''./chroma_db'',
                 Persist (Chroma ''./chroma_db'' (OllamaEmbeddings ''llama3'')),
                 OpenStore ''./chroma_db'' (OllamaEmbeddings ''llama3''),
                 HttpGet endpoint (weather_params (PFloat 48.8566) (PFloat 2.3522)),
                 QARun (RetrievalQA (Ollama ''llama3'')
                          (Retriever (Chroma ''./chroma_db'' (OllamaEmbeddings ''llama3''))))
                   (query text),
                 Print banner, Print answer]))"
proof (cases "result_of (prepare_rag E s)")
  case (Inl e)
  then have ev: "events_of (script E s) = events_of (prepare_rag E s)"
    and res: "result_of (script E s) = Inl e"
    by (simp_all add: script_def run_simps)
  from prepare_rag_events [of E s] show ?thesis
    unfolding ev res by (auto simp add: stages_simps)
next
  case (Inr embedding)
  from prepare_rag_result [OF Inr] obtain splits where
    emb: "embedding = OllamaEmbeddings ''llama3''" and
    prep: "events_of (prepare_rag E s) =
             [FromDocuments splits embedding ''./chroma_db'',
              Persist (Chroma ''./chroma_db'' embedding)]"
    by blast
  have ev: "events_of (script E s) =
              events_of (prepare_rag E s)
              @ events_of (run_agent E embedding (files_of (prepare_rag E s)))"
    and res: "result_of (script E s) =
                result_of (run_agent E embedding (files_of (prepare_rag E s)))"
    using Inr by (simp_all add: script_def run_simps)
  show ?thesis
    unfolding ev res prep
    by (auto simp add: emb run_agent_events run_agent_result Let_def stages_simps
        split: sum.splits option.splits)
qed


lemma prepare_rag_sample:
  "result_of (prepare_rag sample_env Map.empty) = Inr (OllamaEmbeddings ''llama3'')"
  "result_of (prepare_rag (with_llm answer) Map.empty) = Inr (OllamaEmbeddings ''llama3'')"
  by (simp_all add: prepare_rag_def run_simps save_documents_run load_documents_def
      embed_and_persist_def Let_def sample_env_def with_llm_def result_of_call_handle)

theorem script_interactions_witness:
  "result_of (script sample_env Map.empty) = Inr ()
   \<and> stages (events_of (script sample_env Map.empty)) =
       [VectorDatabase, WeatherService, LanguageModel]"
proof -
  have "result_of (run_agent sample_env (OllamaEmbeddings ''llama3'') s) = Inr ()" for s
    by (simp add: run_agent_result get_weather_result sample_env_def sample_body_def
        py_get_def weather_text_def)
  then have ok: "result_of (script sample_env Map.empty) = Inr ()"
    by (simp add: script_def run_simps prepare_rag_sample)
  with script_interactions [of sample_env Map.empty] show ?thesis
    by simp
qed



lemma tool_cell_events:
  "events_of (tool_cell E s) =
     (let fetched = HttpGet endpoint (weather_params (PFloat 48.8566) (PFloat 2.3522))
      in case result_of (tool_cell E s) of
           Inl e \<Rightarrow> [fetched]
         | Inr text \<Rightarrow> [fetched, Print tool_banner, Print text])"
  by (auto simp add: tool_cell_def Let_def run_simps get_weather2_events get_weather2_files
      split: sum.splits)



lemma final_cell_events:
  "events_of (final_cell E embedding llm text s) =
     (let qa = RetrievalQA llm (Retriever (Chroma ''./chroma_db'' embedding));
          opened = OpenStore ''./chroma_db'' embedding
      in case open_store_impl E ''./chroma_db'' embedding of
           Some e \<Rightarrow> [opened]
         | None \<Rightarrow>
             (case qa_run_impl E qa (query2 text) of
                Inl e \<Rightarrow> [opened, QARun qa (query2 text)]
              | Inr answer \<Rightarrow>
                  [opened, QARun qa (query2 text), Print final_banner, Print answer]))"
  by (auto simp add: final_cell_def Let_def run_simps result_of_call_handle
      split: sum.splits option.splits)

lemma reasoning_cell_events:
  "events_of (reasoning_cell E llm s) =
     (case llm_invoke_impl E llm question of
        Inl e \<Rightarrow> [LLMInvoke llm question]
      | Inr response \<Rightarrow>
          [LLMInvoke llm question, Print reasoning_banner, Print response])"
  by (auto simp add: reasoning_cell_def run_simps split: sum.splits)

lemma reasoning_cell_result:
  "result_of (reasoning_cell E llm s) = llm_invoke_impl E llm question"
  by (auto simp add: reasoning_cell_def run_simps split: sum.splits)

lemma reasoning_cell_files: "files_of (reasoning_cell E llm s) = s"
  by (auto simp add: reasoning_cell_def run_simps split: sum.splits)

lemma no_http_get_simps:
  "filter is_http_get (events_of (final_cell E embedding llm text s)) = []"
  "filter is_http_get (events_of (reasoning_cell E llm s)) = []"
  "filter is_http_get (events_of (prepare_rag E s)) = []"
  using prepare_rag_events [of E s]
  by (auto simp add: final_cell_events reasoning_cell_events Let_def
      split: sum.splits option.splits)

lemma tool_cell_http_get:
  "filter is_http_get (events_of (tool_cell E s)) =
     [HttpGet endpoint (weather_params (PFloat 48.8566) (PFloat 2.3522))]"
  by (simp add: tool_cell_events Let_def split: sum.splits)

text \<open>
  C4: in the reasoning notebook the weather tool is called with latitude 48.8566 and
  longitude 2.3522 whatever the model answered. Two runs that reach the model, with any
  two replies, issue the same single HTTP GET with these coordinates; each reply is only
  printed.
\<close>

theorem tool_call_ignores_reasoning:
  assumes "result_of (prepare_rag E1 s1) = Inr embedding1"
    and "result_of (prepare_rag E2 s2) = Inr embedding2"
    and "llm_invoke_impl E1 (Ollama ''llama3'') question = Inr text1"
    and "llm_invoke_impl E2 (Ollama ''llama3'') question = Inr text2"
  shows "filter is_http_get (events_of (reasoning_notebook E1 s1)) =
           [HttpGet endpoint (weather_params (PFloat 48.8566) (PFloat 2.3522))]
       \<and> filter is_http_get (events_of (reasoning_notebook E2 s2)) =
           filter is_http_get (events_of (reasoning_notebook E1 s1))
       \<and> Print text1 \<in> set (events_of (reasoning_notebook E1 s1))
       \<and> Print text2 \<in> set (events_of (reasoning_notebook E2 s2))"
proof -
  have run: "filter is_http_get (events_of (reasoning_notebook E s)) =
               [HttpGet endpoint (weather_params (PFloat 48.8566) (PFloat 2.3522))]
             \<and> Print reply \<in> set (events_of (reasoning_notebook E s))"
    if "result_of (prepare_rag E s) = Inr embedding"
      and "llm_invoke_impl E (Ollama ''llama3'') question = Inr reply"
    for E s embedding reply
    using that
    by (simp add: reasoning_notebook_def Let_def run_simps no_http_get_simps
        tool_cell_http_get reasoning_cell_result reasoning_cell_events
        split: sum.splits)
  from run [OF assms(1,3)] run [OF assms(2,4)] show ?thesis
    by simp
qed

theorem tool_call_ignores_reasoning_witness:
  "''Step 1: look up Paris.'' \<noteq> ''No tool is needed.''
   \<and> Print ''Step 1: look up Paris.'' \<in> set (events_of (reasoning_notebook sample_env Map.empty))
   \<and> Print ''No tool is needed.''
       \<in> set (events_of (reasoning_notebook (with_llm (Inr ''No tool is needed.'')) Map.empty))
   \<and> filter is_http_get (events_of (reasoning_notebook sample_env Map.empty)) =
       [HttpGet endpoint (weather_params (PFloat 48.8566) (PFloat 2.3522))]
   \<and> filter is_http_get
        (events_of (reasoning_notebook (with_llm (Inr ''No tool is needed.'')) Map.empty)) =
       [HttpGet endpoint (weather_params (PFloat 48.8566) (PFloat 2.3522))]"
  using tool_call_ignores_reasoning
    [OF prepare_rag_sample(1) prepare_rag_sample(2) [of "Inr ''No tool is needed.''"],
     of "''Step 1: look up Paris.''" "''No tool is needed.''"]
  by (simp add: sample_env_def with_llm_def)







end
